theory Spec2Isabelle
  imports Main
begin

section \<open>The form server of \<open>src/app.py\<close>\<close>

text \<open>
  \<open>app.py\<close> is a Flask application: \<open>POST /submit\<close> validates a form, applies the
  multiplier rule, appends one row to a spreadsheet and uploads the spreadsheet to S3;
  \<open>GET /download\<close> returns the spreadsheet. The functions below follow the source
  function by function. What the source takes from outside is explicit:
  \<^item> Python's floats are a type parameter \<open>'f\<close>, with \<open>float(s)\<close>,
    \<open>float * int\<close> and the number a saved float reads back as the fields of a record
    \<open>pyfloat\<close>;
  \<^item> the file system and the log of calls to \<open>s3.upload_file\<close> are a \<open>state\<close>;
  \<^item> what one request meets in its environment (the clock, and for each library call
    whether it returns or raises) is a record \<open>env\<close>.
\<close>

subsection \<open>Exceptions and the environment of one request\<close>

text \<open>
  An exception as the source sees it: whether it is an instance of
  \<open>(BotoCoreError, ClientError)\<close> (line 72), its \<open>str(e)\<close> and the text that
  \<open>traceback.format_exc()\<close> gives for it.
\<close>

datatype exc = Exc (is_boto: bool) (exc_str: string) (format_exc: string)

datatype outcome = Returns | Raises exc

text \<open>
  \<open>wb.save(path)\<close> either writes the workbook or raises; when it raises the target is
  either untouched or left truncated (the flag).
\<close>

datatype save_outcome = Saved | Save_raises exc bool

record env =
  utcnow_row :: string       \<comment> \<open>\<open>datetime.utcnow().strftime('%Y-%m-%d %H:%M:%S')\<close>, line 128\<close>
  utcnow_key :: string       \<comment> \<open>\<open>datetime.utcnow().strftime("%Y%m%dT%H%M%SZ")\<close>, line 62\<close>
  makedirs_io :: outcome     \<comment> \<open>\<open>os.makedirs(d, exist_ok=True)\<close>, line 25\<close>
  save_new_io :: save_outcome  \<comment> \<open>\<open>wb.save(EXCEL_PATH)\<close>, line 36\<close>
  load_io :: outcome         \<comment> \<open>\<open>load_workbook(EXCEL_PATH)\<close>, line 50\<close>
  unreadable :: exc          \<comment> \<open>what \<open>load_workbook\<close> raises on a path that holds no workbook\<close>
  append_io :: outcome       \<comment> \<open>\<open>ws.append(row)\<close>, line 52\<close>
  save_io :: save_outcome    \<comment> \<open>\<open>wb.save(EXCEL_PATH)\<close>, line 53\<close>
  client_io :: outcome       \<comment> \<open>\<open>boto3.client('s3', ...)\<close>, line 69\<close>
  upload_io :: outcome       \<comment> \<open>\<open>s3.upload_file(local_path, bucket, key)\<close>, line 70\<close>
  send_error :: exc          \<comment> \<open>what \<open>send_from_directory\<close> raises on a path that is no regular file\<close>

subsection \<open>Python builtins\<close>

text \<open>
  A \<open>char\<close> stands for the character with its code point, 0 to 255. On these
  \<open>str.isspace\<close> holds for the ASCII controls 9 to 13 and 28 to 31, the space, NEL
  (133) and the no-break space (160), and \<open>str.isdigit\<close> for \<open>0\<close> to \<open>9\<close> and the
  superscripts two, three and one (178, 179, 185).
\<close>

definition isspace :: "char \<Rightarrow> bool" where
  "isspace c = (let n = (of_char c :: nat)
                in (9 \<le> n \<and> n \<le> 13) \<or> (28 \<le> n \<and> n \<le> 32) \<or> n = 133 \<or> n = 160)"

definition isdigit :: "char \<Rightarrow> bool" where
  "isdigit c = (let n = (of_char c :: nat)
                in (48 \<le> n \<and> n \<le> 57) \<or> n = 178 \<or> n = 179 \<or> n = 185)"

text \<open>
  Python's floats are a type \<open>'f\<close> with the two operations the source uses:
  \<open>float(s)\<close>, which raises on text that is no number, and \<open>x * n\<close> for an integer
  \<open>n\<close>, which raises OverflowError when \<open>n\<close> is beyond the range of a float. The
  third field is what the spreadsheet library makes of a float: \<open>wb.save\<close> writes it
  with 16 significant digits, and writes nothing for \<open>inf\<close> and \<open>nan\<close>.
\<close>

record 'f pyfloat =
  float_of :: "string \<Rightarrow> 'f option"      \<comment> \<open>\<open>float(s)\<close>; \<open>None\<close> when it raises\<close>
  float_mul :: "'f \<Rightarrow> int \<Rightarrow> exc + 'f"    \<comment> \<open>\<open>x * n\<close>; \<open>Inl\<close> when it raises\<close>
  float_cell :: "'f \<Rightarrow> 'f option"
    \<comment> \<open>the number \<open>load_workbook\<close> reads back for a float that \<open>wb.save\<close> wrote;
        \<open>None\<close> when the cell reads back empty\<close>

text \<open>\<open>s.strip()\<close>: leading and trailing whitespace removed.\<close>

definition strip :: "string \<Rightarrow> string" where
  "strip s = rev (dropWhile isspace (rev (dropWhile isspace s)))"

text \<open>\<open>x or d\<close> for \<open>x\<close> that is \<open>None\<close> or a string: the empty string is falsy.\<close>

definition or_else :: "string option \<Rightarrow> string \<Rightarrow> string" where
  "or_else x d = (case x of None \<Rightarrow> d | Some s \<Rightarrow> if s = [] then d else s)"

text \<open>\<open>s.split(c)\<close> for a one-character separator: never the empty list.\<close>

fun py_split :: "char \<Rightarrow> string \<Rightarrow> string list" where
  "py_split c [] = [[]]"
| "py_split c (x # xs) =
     (if x = c then [] # py_split c xs
      else (case py_split c xs of [] \<Rightarrow> [[x]] | p # ps \<Rightarrow> (x # p) # ps))"

text \<open>\<open>''.join(ch for ch in s if p(ch))\<close>\<close>

definition join_if :: "(char \<Rightarrow> bool) \<Rightarrow> string \<Rightarrow> string" where
  "join_if p s = concat (map (\<lambda>ch. [ch]) (filter p s))"

subsection \<open>Paths (\<open>posixpath\<close>)\<close>

definition path_join :: "string \<Rightarrow> string \<Rightarrow> string" where
  "path_join a b =
     (if b \<noteq> [] \<and> hd b = CHR ''/'' then b
      else if a = [] \<or> last a = CHR ''/'' then a @ b
      else a @ ''/'' @ b)"

definition dirname :: "string \<Rightarrow> string" where
  "dirname p =
     (let h = rev (dropWhile (\<lambda>c. c \<noteq> CHR ''/'') (rev p))
      in if h \<noteq> [] \<and> \<not> list_all (\<lambda>c. c = CHR ''/'') h
         then rev (dropWhile (\<lambda>c. c = CHR ''/'') (rev h)) else h)"

definition basename :: "string \<Rightarrow> string" where
  "basename p = rev (takeWhile (\<lambda>c. c \<noteq> CHR ''/'') (rev p))"

subsection \<open>Configuration (lines 14 to 20)\<close>

record config =
  cwd :: string                  \<comment> \<open>\<open>os.getcwd()\<close>\<close>
  EXCEL_FILE :: string
  MULTIPLIER :: int
  S3_BUCKET :: "string option"
  AWS_REGION :: "string option"

definition EXCEL_PATH :: "config \<Rightarrow> string" where
  "EXCEL_PATH cfg = path_join (cwd cfg) (EXCEL_FILE cfg)"

text \<open>The truth value of \<open>S3_BUCKET\<close>: \<open>None\<close> and the empty string are falsy.\<close>

definition truthy :: "string option \<Rightarrow> bool" where
  "truthy b = (case b of None \<Rightarrow> False | Some s \<Rightarrow> s \<noteq> [])"

subsection \<open>The store: files, directories and the upload log\<close>

text \<open>A cell value: a string, a number, or \<open>None\<close> for an empty cell.\<close>

datatype 'f cell = Str string | Num 'f | Empty

text \<open>
  A file holds a workbook (the rows of its active sheet, as \<open>load_workbook\<close> reads
  them back) or something \<open>load_workbook\<close> cannot read.
\<close>

datatype 'f content = Workbook "'f cell list list" | Corrupt

record 'f state =
  files :: "string \<rightharpoonup> 'f content"
  dirs :: "string set"
  s3_calls :: "(string \<times> string \<times> string) list"
    \<comment> \<open>the calls \<open>s3.upload_file(local_path, bucket, key)\<close> made so far\<close>

definition path_exists :: "'f state \<Rightarrow> string \<Rightarrow> bool" where
  "path_exists st p = (p \<in> dom (files st) \<or> p \<in> dirs st)"

text \<open>\<open>os.makedirs(d, exist_ok=True)\<close> creates \<open>d\<close> and its missing ancestors.\<close>

definition ancestors :: "string \<Rightarrow> string list" where
  "ancestors d = filter (\<lambda>p. p \<noteq> []) (map (\<lambda>k. (dirname ^^ k) d) [0..<Suc (length d)])"

definition makedirs :: "env \<Rightarrow> string \<Rightarrow> 'f state \<Rightarrow> exc + 'f state" where
  "makedirs e d st =
     (case makedirs_io e of
        Raises x \<Rightarrow> Inl x
      | Returns \<Rightarrow> Inr (st\<lparr>dirs := dirs st \<union> set (ancestors d)\<rparr>))"

text \<open>
  The library does not keep a cell as it is given. \<open>ws.append\<close> cuts a string at 32767
  characters; when it raises, as it does for a string with a control character, that is
  the \<open>append_io\<close> of the environment. \<open>wb.save\<close> writes the empty string as an empty
  cell and a float as \<open>float_cell\<close> says, so that is what the file holds and
  \<open>load_workbook\<close> reads back.
\<close>

definition check_cell :: "'f cell \<Rightarrow> 'f cell" where
  "check_cell c = (case c of Str s \<Rightarrow> Str (take 32767 s) | Num x \<Rightarrow> Num x | Empty \<Rightarrow> Empty)"

definition written :: "'f pyfloat \<Rightarrow> 'f cell \<Rightarrow> 'f cell" where
  "written fp c =
     (case c of
        Str s \<Rightarrow> if s = [] then Empty else Str s
      | Num x \<Rightarrow> (case float_cell fp x of None \<Rightarrow> Empty | Some y \<Rightarrow> Num y)
      | Empty \<Rightarrow> Empty)"

definition wb_save ::
  "'f pyfloat \<Rightarrow> save_outcome \<Rightarrow> string \<Rightarrow> 'f cell list list \<Rightarrow> 'f state \<Rightarrow> exc option \<times> 'f state" where
  "wb_save fp io p rows st =
     (case io of
        Saved \<Rightarrow> (None, st\<lparr>files := (files st)(p \<mapsto> Workbook (map (map (written fp)) rows))\<rparr>)
      | Save_raises x clobbered \<Rightarrow>
          (Some x, if clobbered then st\<lparr>files := (files st)(p \<mapsto> Corrupt)\<rparr> else st))"

text \<open>
  A row as the file holds it once \<open>ws.append\<close> and \<open>wb.save\<close> have run, and the
  rows of a workbook that is loaded and saved again.
\<close>

definition stored :: "'f pyfloat \<Rightarrow> 'f cell list \<Rightarrow> 'f cell list" where
  "stored fp row = map (written fp) (map check_cell row)"

definition resaved :: "'f pyfloat \<Rightarrow> 'f cell list list \<Rightarrow> 'f cell list list" where
  "resaved fp rows = map (map (written fp)) rows"

definition load_workbook :: "env \<Rightarrow> string \<Rightarrow> 'f state \<Rightarrow> exc + 'f cell list list" where
  "load_workbook e p st =
     (case load_io e of
        Raises x \<Rightarrow> Inl x
      | Returns \<Rightarrow>
          (case files st p of
             Some (Workbook rows) \<Rightarrow> Inr rows
           | _ \<Rightarrow> Inl (unreadable e)))"

subsection \<open>\<open>ensure_dir_for_file\<close>, \<open>ensure_excel\<close>, \<open>append_row_and_save\<close> (lines 22 to 56)\<close>

definition ensure_dir_for_file :: "env \<Rightarrow> string \<Rightarrow> 'f state \<Rightarrow> exc + 'f state" where
  "ensure_dir_for_file e path st =
     (let d = dirname path
      in if d \<noteq> [] \<and> \<not> path_exists st d then makedirs e d st else Inr st)"

definition headers :: "'f cell list" where
  "headers = [Str ''TimestampUTC'', Str ''Name'', Str ''Phone'', Str ''Email'',
              Str ''Zipcode'', Str ''Bank'', Str ''AmountSent'', Str ''ReopenedFlag'']"

text \<open>
  The result is the pair the source returns, \<open>(True, None)\<close> or
  \<open>(False, traceback.format_exc())\<close>, with the state that is left.
\<close>

definition ensure_excel ::
  "config \<Rightarrow> 'f pyfloat \<Rightarrow> env \<Rightarrow> 'f state \<Rightarrow> (bool \<times> string option) \<times> 'f state" where
  "ensure_excel cfg fp e st =
     (case ensure_dir_for_file e (EXCEL_PATH cfg) st of
        Inl x \<Rightarrow> ((False, Some (format_exc x)), st)
      | Inr st1 \<Rightarrow>
          if \<not> path_exists st1 (EXCEL_PATH cfg) then
            (case wb_save fp (save_new_io e) (EXCEL_PATH cfg) [map check_cell headers] st1 of
               (Some x, st2) \<Rightarrow> ((False, Some (format_exc x)), st2)
             | (None, st2) \<Rightarrow> ((True, None), st2))
          else ((True, None), st1))"

definition ws_append :: "env \<Rightarrow> 'f cell list list \<Rightarrow> 'f cell list \<Rightarrow> exc + 'f cell list list" where
  "ws_append e rows row =
     (case append_io e of Raises x \<Rightarrow> Inl x | Returns \<Rightarrow> Inr (rows @ [map check_cell row]))"

definition append_row_and_save ::
  "config \<Rightarrow> 'f pyfloat \<Rightarrow> env \<Rightarrow> 'f cell list \<Rightarrow> 'f state \<Rightarrow> (bool \<times> string option) \<times> 'f state" where
  "append_row_and_save cfg fp e row st =
     (case ensure_dir_for_file e (EXCEL_PATH cfg) st of
        Inl x \<Rightarrow> ((False, Some (format_exc x)), st)
      | Inr st1 \<Rightarrow>
          (case (if \<not> path_exists st1 (EXCEL_PATH cfg) then ensure_excel cfg fp e st1
                 else ((True, None), st1)) of
             ((False, err), st2) \<Rightarrow> ((False, err), st2)
           | ((True, _), st2) \<Rightarrow>
               (case load_workbook e (EXCEL_PATH cfg) st2 of
                  Inl x \<Rightarrow> ((False, Some (format_exc x)), st2)
                | Inr rows \<Rightarrow>
                    (case ws_append e rows row of
                       Inl x \<Rightarrow> ((False, Some (format_exc x)), st2)
                     | Inr rows' \<Rightarrow>
                         (case wb_save fp (save_io e) (EXCEL_PATH cfg) rows' st2 of
                            (Some x, st3) \<Rightarrow> ((False, Some (format_exc x)), st3)
                          | (None, st3) \<Rightarrow> ((True, None), st3))))))"

subsection \<open>\<open>upload_to_s3\<close> (lines 58 to 73)\<close>

text \<open>
  The dictionaries the source builds: \<open>{"ok": True, "key": .., "bucket": ..}\<close> and
  \<open>{"ok": False, "error": ..}\<close>, the latter with a \<open>"trace"\<close> when an exception was caught.
\<close>

datatype s3_result = S3_ok string string | S3_error string "string option"

text \<open>
  Line 72 catches \<open>BotoCoreError\<close> and \<open>ClientError\<close> only: \<open>Inl\<close> is an exception
  that leaves \<open>upload_to_s3\<close>.
\<close>

definition s3_except :: "exc \<Rightarrow> exc + s3_result" where
  "s3_except x = (if is_boto x then Inr (S3_error (exc_str x) (Some (format_exc x))) else Inl x)"

definition upload_to_s3 ::
  "env \<Rightarrow> string \<Rightarrow> string option \<Rightarrow> string option \<Rightarrow> 'f state \<Rightarrow> (exc + s3_result) \<times> 'f state" where
  "upload_to_s3 e local_path bucket key st =
     (case (if truthy bucket then bucket else None) of
        None \<Rightarrow> (Inr (S3_error ''No S3_BUCKET configured'' None), st)
      | Some b \<Rightarrow>
          let k = (case key of
                     None \<Rightarrow> ''submissions/'' @ utcnow_key e @ ''_'' @ basename local_path
                   | Some k \<Rightarrow> k)
          in (case client_io e of
                Raises x \<Rightarrow> (s3_except x, st)
              | Returns \<Rightarrow>
                  let st1 = st\<lparr>s3_calls := s3_calls st @ [(local_path, b, k)]\<rparr>
                  in (case upload_io e of
                        Raises x \<Rightarrow> (s3_except x, st1)
                      | Returns \<Rightarrow> (Inr (S3_ok k b), st1))))"

subsection \<open>\<open>submit\<close> (lines 92 to 147)\<close>

text \<open>\<open>request.form\<close>: \<open>request.form.get(k)\<close> is \<open>None\<close> or a string.\<close>

type_synonym form = "string \<rightharpoonup> string"

record fields =
  name :: string
  phone :: string
  email :: string
  zipcode :: string
  bank :: string
  amount_raw :: string
  reopened :: string

text \<open>Lines 95 to 101.\<close>

definition read_form :: "form \<Rightarrow> fields" where
  "read_form frm =
     \<lparr>name = strip (or_else (frm ''name'') []),
      phone = strip (or_else (frm ''phone'') []),
      email = strip (or_else (frm ''email'') []),
      zipcode = strip (or_else (frm ''zipcode'') []),
      bank = strip (or_else (frm ''bank'') []),
      amount_raw = strip (or_else (frm ''amount'') []),
      reopened = strip (or_else (frm ''reopened'') ''0'')\<rparr>"

text \<open>
  The JSON bodies of \<open>/submit\<close>: a validation error (\<open>success=False, error\<close>), the
  failed save (\<open>error, save_trace, file_path\<close>), the success and the handler of line
  146 (\<open>error=str(exc), trace\<close>). A response is a body with its HTTP status.
\<close>

datatype 'f body =
    Json_error string
  | Json_save_failed string "string option" string
  | Json_success (amount_sent: 'f) (reopened_received: string) (multiplied: bool)
      (file_exists: bool) (file_path: string) (s3_upload: "s3_result option")
  | Json_exception string string

type_synonym 'f response = "'f body \<times> nat"

text \<open>Lines 104 to 118: \<open>Inl\<close> is the response returned early, \<open>Inr\<close> the parsed amount.\<close>

definition validate :: "'f pyfloat \<Rightarrow> fields \<Rightarrow> 'f response + 'f" where
  "validate fp fl =
     (if name fl = [] \<or> length (name fl) < 2 then Inl (Json_error ''Name too short'', 400)
      else if phone fl = [] \<or> length (join_if isdigit (phone fl)) < 6
        then Inl (Json_error ''Phone looks invalid'', 400)
      else if email fl = [] \<or> CHR ''@'' \<notin> set (email fl)
                \<or> CHR ''.'' \<notin> set (last (py_split (CHR ''@'') (email fl)))
        then Inl (Json_error ''Email looks invalid'', 400)
      else if zipcode fl = [] \<or> length (zipcode fl) < 3
        then Inl (Json_error ''Zipcode looks invalid'', 400)
      else if bank fl = [] \<or> length (bank fl) < 2
        then Inl (Json_error ''Bank name required'', 400)
      else (case float_of fp (amount_raw fl) of
              None \<Rightarrow> Inl (Json_error ''Amount is invalid'', 400)
            | Some raw_amount \<Rightarrow> Inr raw_amount))"

text \<open>Lines 121 to 126: \<open>(amount_sent, multiplied_flag)\<close>, or the exception of \<open>*\<close>.\<close>

definition apply_multiplier :: "config \<Rightarrow> 'f pyfloat \<Rightarrow> string \<Rightarrow> 'f \<Rightarrow> exc + 'f \<times> bool" where
  "apply_multiplier cfg fp reop raw_amount =
     (if reop = ''1'' then
        (case float_mul fp raw_amount (MULTIPLIER cfg) of
           Inl x \<Rightarrow> Inl x
         | Inr p \<Rightarrow> Inr (p, True))
      else Inr (raw_amount, False))"

text \<open>Line 130.\<close>

definition build_row :: "env \<Rightarrow> fields \<Rightarrow> 'f \<Rightarrow> 'f cell list" where
  "build_row e fl amt =
     [Str (utcnow_row e), Str (name fl), Str (phone fl), Str (email fl), Str (zipcode fl),
      Str (bank fl), Num amt, Str (reopened fl)]"

text \<open>Lines 134 to 138: the value of \<open>s3_result\<close>, or the exception of the upload.\<close>

definition sync :: "config \<Rightarrow> env \<Rightarrow> bool \<Rightarrow> 'f state \<Rightarrow> (exc + s3_result option) \<times> 'f state" where
  "sync cfg e ok st =
     (if ok \<and> truthy (S3_BUCKET cfg) then
        (case upload_to_s3 e (EXCEL_PATH cfg) (S3_BUCKET cfg) None st of
           (Inl x, st1) \<Rightarrow> (Inl x, st1)
         | (Inr r, st1) \<Rightarrow> (Inr (Some r), st1))
      else if \<not> truthy (S3_BUCKET cfg) then
        (Inr (Some (S3_error ''S3_BUCKET not configured; skipping upload'' None)), st)
      else (Inr None, st))"

text \<open>Line 147, the handler of every exception raised inside \<open>submit\<close>.\<close>

definition internal_error :: "exc \<Rightarrow> 'f response" where
  "internal_error x = (Json_exception (exc_str x) (format_exc x), 500)"

definition submit :: "config \<Rightarrow> 'f pyfloat \<Rightarrow> env \<Rightarrow> form \<Rightarrow> 'f state \<Rightarrow> 'f response \<times> 'f state" where
  "submit cfg fp e frm st =
     (let fl = read_form frm in
      case validate fp fl of
        Inl r \<Rightarrow> (r, st)
      | Inr raw_amount \<Rightarrow>
          (case apply_multiplier cfg fp (reopened fl) raw_amount of
             Inl x \<Rightarrow> (internal_error x, st)
           | Inr (amt, multiplied_flag) \<Rightarrow>
               (case append_row_and_save cfg fp e (build_row e fl amt) st of
                  ((ok, err), st1) \<Rightarrow>
                    let fe = path_exists st1 (EXCEL_PATH cfg) in
                    (case sync cfg e ok st1 of
                       (Inl x, st2) \<Rightarrow> (internal_error x, st2)
                     | (Inr s3, st2) \<Rightarrow>
                         if \<not> ok
                         then ((Json_save_failed ''Failed to save Excel'' err (EXCEL_PATH cfg), 500), st2)
                         else ((Json_success amt (reopened fl) multiplied_flag fe
                                  (EXCEL_PATH cfg) s3, 200), st2)))))"

subsection \<open>\<open>download_excel\<close> (lines 150 to 159)\<close>

datatype 'f download_body = Download_error string | Attachment string "'f content"

definition download_excel :: "config \<Rightarrow> env \<Rightarrow> 'f state \<Rightarrow> 'f download_body \<times> nat" where
  "download_excel cfg e st =
     (let path = path_join (cwd cfg) ''submissions.xlsx''
      in if \<not> path_exists st path
         then (Download_error ''File not found. Submit once to create it.'', 404)
         else (case files st path of
                 Some c \<Rightarrow> (Attachment ''submissions.xlsx'' c, 200)
               | None \<Rightarrow> (Download_error (exc_str (send_error e)), 500)))"

subsection \<open>Start-up and a sequence of requests\<close>




subsection \<open>The validator in the words of the specification\<close>

text \<open>
  Section 4.4 of the specification: six rules, applied in order, the first that fails
  decides. \<open>spec_rule\<close> says when a rule holds; the messages are those of lines 105
  to 118.
\<close>

datatype field = Name | Phone | Email | Zipcode | Bank | Amount

definition remove_non_digits :: "string \<Rightarrow> string" where
  "remove_non_digits s = filter isdigit s"

definition after_last :: "char \<Rightarrow> string \<Rightarrow> string" where
  "after_last c s = rev (takeWhile (\<lambda>x. x \<noteq> c) (rev s))"

fun spec_rule :: "'f pyfloat \<Rightarrow> fields \<Rightarrow> field \<Rightarrow> bool" where
  "spec_rule fp fl Name = (name fl \<noteq> [] \<and> 2 \<le> length (name fl))"
| "spec_rule fp fl Phone = (phone fl \<noteq> [] \<and> 6 \<le> length (remove_non_digits (phone fl)))"
| "spec_rule fp fl Email =
     (email fl \<noteq> [] \<and> CHR ''@'' \<in> set (email fl)
      \<and> CHR ''.'' \<in> set (after_last (CHR ''@'') (email fl)))"
| "spec_rule fp fl Zipcode = (zipcode fl \<noteq> [] \<and> 3 \<le> length (zipcode fl))"
| "spec_rule fp fl Bank = (bank fl \<noteq> [] \<and> 2 \<le> length (bank fl))"
| "spec_rule fp fl Amount = (float_of fp (amount_raw fl) \<noteq> None)"

definition spec_order :: "field list" where
  "spec_order = [Name, Phone, Email, Zipcode, Bank, Amount]"

definition spec_first_failure :: "'f pyfloat \<Rightarrow> fields \<Rightarrow> field option" where
  "spec_first_failure fp fl = find (\<lambda>k. \<not> spec_rule fp fl k) spec_order"

fun error_message :: "field \<Rightarrow> string" where
  "error_message Name = ''Name too short''"
| "error_message Phone = ''Phone looks invalid''"
| "error_message Email = ''Email looks invalid''"
| "error_message Zipcode = ''Zipcode looks invalid''"
| "error_message Bank = ''Bank name required''"
| "error_message Amount = ''Amount is invalid''"

subsection \<open>Concrete requests\<close>

text \<open>
  A configuration with the defaults of lines 14 to 20, an environment in which every
  call returns, a disk that holds the working directory and nothing else, and a form
  that passes validation. The floats of \<open>int_float\<close> are the integers, which is what
  Python's floats are below \<open>2\<^sup>5\<^sup>3\<close>: \<open>float\<close> reads a string of decimal digits, and
  there \<open>*\<close> is exact and the sixteen digits that \<open>wb.save\<close> writes are the number.
\<close>

definition default_cfg :: config where
  "default_cfg = \<lparr>cwd = ''/srv/app'', EXCEL_FILE = ''submissions.xlsx'', MULTIPLIER = 100,
                  S3_BUCKET = None, AWS_REGION = None\<rparr>"

definition quiet_env :: env where
  "quiet_env = \<lparr>utcnow_row = ''2024-05-01 12:00:00'', utcnow_key = ''20240501T120000Z'',
                makedirs_io = Returns, save_new_io = Saved, load_io = Returns,
                unreadable = Exc False ''File is not a zip file'' ''BadZipFile'',
                append_io = Returns, save_io = Saved, client_io = Returns,
                upload_io = Returns,
                send_error = Exc False ''404 Not Found'' ''NotFound''\<rparr>"

definition int_float :: "int pyfloat" where
  "int_float =
     \<lparr>float_of = (\<lambda>s. if s \<noteq> [] \<and> list_all (\<lambda>c. c \<in> set ''0123456789'') s
                      then Some (foldl (\<lambda>n c. 10 * n + (of_char c - 48)) 0 s) else None),
      float_mul = (\<lambda>a n. Inr (a * n)),
      float_cell = Some\<rparr>"

definition empty_disk :: "'f state" where
  "empty_disk = \<lparr>files = Map.empty, dirs = {''/'', ''/srv'', ''/srv/app''}, s3_calls = []\<rparr>"

definition good_form :: form where
  "good_form = [''name'' \<mapsto> ''Ann Lee'', ''phone'' \<mapsto> ''555-0100'',
                ''email'' \<mapsto> ''ann@example.org'', ''zipcode'' \<mapsto> ''12345'',
                ''bank'' \<mapsto> ''First Bank'', ''amount'' \<mapsto> ''25'', ''reopened'' \<mapsto> ''1'']"

text \<open>
  Variations: another store file, a bucket, a disk that refuses the save of line 53,
  and an upload that raises an exception of boto3 that is neither a \<open>BotoCoreError\<close>
  nor a \<open>ClientError\<close>.
\<close>

definition custom_cfg :: config where
  "custom_cfg = default_cfg\<lparr>EXCEL_FILE := ''data.xlsx''\<rparr>"

definition bucket_cfg :: config where
  "bucket_cfg = default_cfg\<lparr>S3_BUCKET := Some ''forms-bucket''\<rparr>"

definition save_denied_env :: env where
  "save_denied_env =
     quiet_env\<lparr>save_io := Save_raises (Exc False ''Permission denied'' ''PermissionError'') False\<rparr>"

definition upload_error_env :: env where
  "upload_error_env =
     quiet_env\<lparr>upload_io := Raises (Exc False ''Failed to upload'' ''S3UploadFailedError'')\<rparr>"



subsection \<open>The store after a sequence of appends\<close>


subsection \<open>Stripped text\<close>


section \<open>Properties\<close>

subsection \<open>Text: \<open>split\<close>, \<open>join\<close> and \<open>strip\<close>\<close>

lemma py_split_not_Nil: "py_split c s \<noteq> []"
  by (induction s) (auto split: list.splits)

lemma py_split_no_sep: "c \<notin> set s \<Longrightarrow> py_split c s = [s]"
  by (induction s) auto

lemma after_last_Cons:
  "after_last c (x # xs) = (if c \<in> set xs then after_last c xs else if x = c then xs else x # xs)"
  by (auto simp: after_last_def takeWhile_append takeWhile_eq_all_conv)

lemma py_split_sep_tail: "c \<in> set s \<Longrightarrow> \<exists>p q qs. py_split c s = p # q # qs"
proof (induction s)
  case Nil
  then show ?case by simp
next
  case (Cons x xs)
  show ?case
  proof (cases "x = c")
    case True
    obtain q qs where "py_split c xs = q # qs"
      using py_split_not_Nil [of c xs] by (cases "py_split c xs") auto
    with True show ?thesis by simp
  next
    case False
    with Cons.prems have "c \<in> set xs" by simp
    from Cons.IH [OF this] obtain p q qs where "py_split c xs = p # q # qs" by blast
    with False show ?thesis by simp
  qed
qed

lemma last_py_split: "last (py_split c s) = after_last c s"
proof (induction s)
  case Nil
  show ?case by (simp add: after_last_def)
next
  case (Cons x xs)
  show ?case
  proof (cases "c \<in> set xs")
    case True
    from py_split_sep_tail [OF True] obtain p q qs where pq: "py_split c xs = p # q # qs" by blast
    with Cons True show ?thesis by (simp add: after_last_Cons)
  next
    case False
    then show ?thesis by (simp add: after_last_Cons py_split_no_sep)
  qed
qed

lemma join_if_filter: "join_if p s = filter p s"
  unfolding join_if_def by (induction s) auto

lemma dropWhile_hd: "s \<noteq> [] \<Longrightarrow> \<not> P (hd s) \<Longrightarrow> dropWhile P s = s"
  by (cases s) auto

lemma strip_clean: "s \<noteq> [] \<Longrightarrow> \<not> isspace (hd s) \<Longrightarrow> \<not> isspace (last s) \<Longrightarrow> strip s = s"
  by (simp add: strip_def dropWhile_hd hd_rev)







subsection \<open>Paths: a directory is shorter than the file it holds\<close>








lemma self_ancestor: "d \<noteq> [] \<Longrightarrow> d \<in> set (ancestors d)"
proof -
  assume "d \<noteq> []"
  moreover have "(dirname ^^ 0) d = d" by simp
  moreover have "0 \<in> set [0..<Suc (length d)]" by simp
  ultimately show ?thesis unfolding ancestors_def by force
qed

subsection \<open>The validator meets the rules of the specification\<close>

lemma validate_first_failure:
  "validate fp fl =
     (case spec_first_failure fp fl of
        Some k \<Rightarrow> Inl (Json_error (error_message k), 400)
      | None \<Rightarrow> (case float_of fp (amount_raw fl) of Some a \<Rightarrow> Inr a | None \<Rightarrow> Inl (Json_error (error_message Amount), 400)))"
  by (auto simp: validate_def spec_first_failure_def spec_order_def join_if_filter
      remove_non_digits_def last_py_split split: option.splits)

lemma validate_Inl_status: "validate fp fl = Inl r \<Longrightarrow> snd r = 400"
  by (auto simp: validate_def split: if_splits option.splits)

lemma inj_error_message: "inj error_message"
proof (rule injI)
  fix x y show "error_message x = error_message y \<Longrightarrow> x = y"
    by (cases x; cases y) simp_all
qed

subsection \<open>The store under \<open>ensure_excel\<close> and \<open>append_row_and_save\<close>\<close>

lemma written_headers: "map (written fp) headers = headers"
  by (simp add: headers_def written_def)

lemma check_headers: "map check_cell headers = headers"
  by (simp add: headers_def check_cell_def)

lemma stored_headers: "stored fp headers = headers"
  by (simp only: stored_def check_headers written_headers)

lemma headers_comp: "map (written fp \<circ> check_cell) headers = headers"
  using stored_headers [of fp] by (simp add: stored_def)

lemma resaved_headers: "resaved fp [map check_cell headers] = [headers]"
  by (simp add: resaved_def check_headers written_headers)


lemma ensure_dir_Inr:
  assumes "ensure_dir_for_file e p st = Inr st1"
  shows "files st1 = files st" and "s3_calls st1 = s3_calls st" and "dirs st \<subseteq> dirs st1"
    and "dirname p = [] \<or> path_exists st1 (dirname p)"
  using assms self_ancestor [of "dirname p"]
  by (auto simp: ensure_dir_for_file_def makedirs_def Let_def path_exists_def
      split: if_splits outcome.splits)

lemma ensure_dir_ready:
  "dirname p = [] \<or> path_exists st (dirname p) \<Longrightarrow> ensure_dir_for_file e p st = Inr st"
  by (auto simp: ensure_dir_for_file_def Let_def)


lemma ensure_excel_present:
  assumes "path_exists st (EXCEL_PATH cfg)"
    and "dirname (EXCEL_PATH cfg) = [] \<or> path_exists st (dirname (EXCEL_PATH cfg))"
  shows "ensure_excel cfg fp e st = ((True, None), st)"
  using assms by (simp add: ensure_excel_def ensure_dir_ready)

lemma ensure_excel_present_files:
  assumes "files st (EXCEL_PATH cfg) = Some c"
  shows "files (snd (ensure_excel cfg fp e st)) = files st"
proof (cases "ensure_dir_for_file e (EXCEL_PATH cfg) st")
  case (Inl x)
  then show ?thesis by (simp add: ensure_excel_def)
next
  case (Inr st1)
  from ensure_dir_Inr(1) [OF Inr] assms have "path_exists st1 (EXCEL_PATH cfg)"
    by (auto simp: path_exists_def)
  with Inr ensure_dir_Inr(1) [OF Inr] show ?thesis by (simp add: ensure_excel_def)
qed

lemma ensure_excel_ok:
  assumes "ensure_excel cfg fp e st = ((True, err), st')"
  shows "err = None" and "path_exists st' (EXCEL_PATH cfg)"
    and "dirname (EXCEL_PATH cfg) = [] \<or> path_exists st' (dirname (EXCEL_PATH cfg))"
    and "s3_calls st' = s3_calls st"
    and "files st' = files st
         \<or> files st (EXCEL_PATH cfg) = None
           \<and> files st' = (files st)(EXCEL_PATH cfg \<mapsto> Workbook [headers])"
proof -
  obtain st1 where d: "ensure_dir_for_file e (EXCEL_PATH cfg) st = Inr st1"
    using assms by (cases "ensure_dir_for_file e (EXCEL_PATH cfg) st") (auto simp: ensure_excel_def)
  note f = ensure_dir_Inr [OF d]
  show "err = None" and "path_exists st' (EXCEL_PATH cfg)"
    and "dirname (EXCEL_PATH cfg) = [] \<or> path_exists st' (dirname (EXCEL_PATH cfg))"
    and "s3_calls st' = s3_calls st"
    and "files st' = files st
         \<or> files st (EXCEL_PATH cfg) = None
           \<and> files st' = (files st)(EXCEL_PATH cfg \<mapsto> Workbook [headers])"
    using assms d f
    by (auto simp: ensure_excel_def wb_save_def headers_comp path_exists_def
        split: if_splits save_outcome.splits prod.splits option.splits)
qed


lemma ensure_excel_s3_calls: "s3_calls (snd (ensure_excel cfg fp e st)) = s3_calls st"
proof (cases "ensure_dir_for_file e (EXCEL_PATH cfg) st")
  case (Inl x)
  then show ?thesis by (simp add: ensure_excel_def)
next
  case (Inr st1)
  with ensure_dir_Inr(2) [OF Inr] show ?thesis
    by (auto simp: ensure_excel_def wb_save_def headers_comp split: save_outcome.splits)
qed

lemma ensure_excel_failed:
  "ensure_excel cfg fp e st = ((False, err), st') \<Longrightarrow> \<exists>x. err = Some (format_exc x)"
  by (auto simp: ensure_excel_def wb_save_def headers_comp
      split: sum.splits if_splits save_outcome.splits prod.splits option.splits)

lemma ensure_excel_twice:
  "snd (ensure_excel cfg fp e (snd (ensure_excel cfg fp e st))) = snd (ensure_excel cfg fp e st)"
proof (cases "ensure_dir_for_file e (EXCEL_PATH cfg) st")
  case (Inl x)
  then show ?thesis by (simp add: ensure_excel_def)
next
  case (Inr st1)
  note ready = ensure_dir_Inr(4) [OF Inr]
  then have again: "ensure_dir_for_file e (EXCEL_PATH cfg) st1 = Inr st1" by (rule ensure_dir_ready)
  show ?thesis
  proof (cases "path_exists st1 (EXCEL_PATH cfg)")
    case True
    with Inr again show ?thesis by (simp add: ensure_excel_def)
  next
    case False
    show ?thesis
    proof (cases "save_new_io e")
      case Saved
      let ?st2 = "st1\<lparr>files := (files st1)(EXCEL_PATH cfg \<mapsto> Workbook [headers])\<rparr>"
      have r: "dirname (EXCEL_PATH cfg) = [] \<or> path_exists ?st2 (dirname (EXCEL_PATH cfg))"
        using ready by (auto simp: path_exists_def)
      have p: "path_exists ?st2 (EXCEL_PATH cfg)" by (simp add: path_exists_def)
      from Inr False Saved have "ensure_excel cfg fp e st = ((True, None), ?st2)"
        by (simp add: ensure_excel_def wb_save_def headers_comp)
      with ensure_excel_present [OF p r] show ?thesis by simp
    next
      case (Save_raises x clobbered)
      show ?thesis
      proof (cases clobbered)
        case True
        let ?st2 = "st1\<lparr>files := (files st1)(EXCEL_PATH cfg \<mapsto> Corrupt)\<rparr>"
        have r: "dirname (EXCEL_PATH cfg) = [] \<or> path_exists ?st2 (dirname (EXCEL_PATH cfg))"
          using ready by (auto simp: path_exists_def)
        have p: "path_exists ?st2 (EXCEL_PATH cfg)" by (simp add: path_exists_def)
        from Inr False Save_raises True
        have "ensure_excel cfg fp e st = ((False, Some (format_exc x)), ?st2)"
          by (simp add: ensure_excel_def wb_save_def headers_comp)
        with ensure_excel_present [OF p r] show ?thesis by simp
      next
        case F: False
        from Inr False Save_raises F
        have "ensure_excel cfg fp e st = ((False, Some (format_exc x)), st1)"
          by (simp add: ensure_excel_def wb_save_def headers_comp)
        moreover from again False Save_raises F
        have "ensure_excel cfg fp e st1 = ((False, Some (format_exc x)), st1)"
          by (simp add: ensure_excel_def wb_save_def headers_comp)
        ultimately show ?thesis by simp
      qed
    qed
  qed
qed

lemma append_ok:
  assumes "append_row_and_save cfg fp e row st = ((True, err), st')"
  shows "err = None" and "s3_calls st' = s3_calls st"
    and "path_exists st' (EXCEL_PATH cfg)"
    and "dirname (EXCEL_PATH cfg) = [] \<or> path_exists st' (dirname (EXCEL_PATH cfg))"
    and "\<exists>rows. files st' =
             (files st)(EXCEL_PATH cfg \<mapsto> Workbook (resaved fp rows @ [stored fp row]))
           \<and> (files st (EXCEL_PATH cfg) = Some (Workbook rows)
              \<or> files st (EXCEL_PATH cfg) = None \<and> rows = [headers])"
proof -
  let ?P = "EXCEL_PATH cfg"
  obtain st1 where d: "ensure_dir_for_file e ?P st = Inr st1"
    using assms by (cases "ensure_dir_for_file e ?P st") (auto simp: append_row_and_save_def)
  note f = ensure_dir_Inr [OF d]
  obtain r st2 where x: "(if \<not> path_exists st1 ?P then ensure_excel cfg fp e st1 else ((True, None), st1)) = (r, st2)"
    by (cases "if \<not> path_exists st1 ?P then ensure_excel cfg fp e st1 else ((True, None), st1)") auto
  obtain er where r: "r = (True, er)"
    using assms d x by (cases r) (auto simp: append_row_and_save_def split: bool.splits)
  have s2: "s3_calls st2 = s3_calls st"
    using x r f(2) ensure_excel_ok(4) [of cfg fp e st1 er st2] by (auto split: if_splits)
  have ready2: "dirname ?P = [] \<or> path_exists st2 (dirname ?P)"
    using x r f(4) ensure_excel_ok(3) [of cfg fp e st1 er st2] by (auto split: if_splits)
  have files2: "files st2 = files st \<or> files st ?P = None \<and> files st2 = (files st)(?P \<mapsto> Workbook [headers])"
    using x r f(1) ensure_excel_ok(5) [of cfg fp e st1 er st2] by (auto split: if_splits)
  obtain rows where l: "load_workbook e ?P st2 = Inr rows"
    using assms d x r by (cases "load_workbook e ?P st2") (auto simp: append_row_and_save_def)
  then have rows: "files st2 ?P = Some (Workbook rows)"
    by (auto simp: load_workbook_def split: outcome.splits option.splits content.splits)
  have fin: "err = None
      \<and> st' = st2\<lparr>files := (files st2)(?P \<mapsto> Workbook (resaved fp rows @ [stored fp row]))\<rparr>"
    using assms d x r l
    by (auto simp: append_row_and_save_def ws_append_def wb_save_def resaved_def stored_def
        split: outcome.splits save_outcome.splits if_splits)
  show "err = None" using fin by simp
  show "s3_calls st' = s3_calls st" using fin s2 by simp
  show "path_exists st' ?P" using fin by (simp add: path_exists_def)
  show "dirname ?P = [] \<or> path_exists st' (dirname ?P)"
    using fin ready2 by (auto simp: path_exists_def)
  show "\<exists>rows. files st' = (files st)(?P \<mapsto> Workbook (resaved fp rows @ [stored fp row]))
           \<and> (files st ?P = Some (Workbook rows) \<or> files st ?P = None \<and> rows = [headers])"
    using fin files2 rows by (intro exI [of _ rows]) auto
qed

lemma append_failed:
  assumes "append_row_and_save cfg fp e row st = ((False, err), st')"
  shows "\<exists>x. err = Some (format_exc x)" and "s3_calls st' = s3_calls st"
proof -
  let ?P = "EXCEL_PATH cfg"
  show "\<exists>x. err = Some (format_exc x)"
  proof (cases "ensure_dir_for_file e ?P st")
    case (Inl x)
    with assms show ?thesis by (auto simp: append_row_and_save_def)
  next
    case (Inr st1)
    obtain b er st2 where x: "(if \<not> path_exists st1 ?P then ensure_excel cfg fp e st1 else ((True, None), st1)) = ((b, er), st2)"
      by (cases "if \<not> path_exists st1 ?P then ensure_excel cfg fp e st1 else ((True, None), st1)") auto
    show ?thesis
    proof (cases b)
      case False
      with x have "\<exists>x. er = Some (format_exc x)"
        using ensure_excel_failed [of cfg fp e st1 er st2] by (auto split: if_splits)
      moreover have "err = er" using assms Inr x False by (simp add: append_row_and_save_def)
      ultimately show ?thesis by simp
    next
      case True
      with assms Inr x show ?thesis
        by (auto simp: append_row_and_save_def ws_append_def wb_save_def resaved_def stored_def
            split: sum.splits outcome.splits save_outcome.splits if_splits)
    qed
  qed
  show "s3_calls st' = s3_calls st"
  proof (cases "ensure_dir_for_file e ?P st")
    case (Inl x)
    with assms show ?thesis by (auto simp: append_row_and_save_def)
  next
    case (Inr st1)
    obtain b er st2 where x: "(if \<not> path_exists st1 ?P then ensure_excel cfg fp e st1 else ((True, None), st1)) = ((b, er), st2)"
      by (cases "if \<not> path_exists st1 ?P then ensure_excel cfg fp e st1 else ((True, None), st1)") auto
    have s2: "s3_calls st2 = s3_calls st"
      using x ensure_dir_Inr(2) [OF Inr] ensure_excel_s3_calls [of cfg fp e st1]
      by (auto split: if_splits)
    show ?thesis
      using assms Inr x s2
      by (cases b) (auto simp: append_row_and_save_def ws_append_def wb_save_def resaved_def stored_def
            split: sum.splits outcome.splits save_outcome.splits if_splits)
  qed
qed

subsection \<open>The upload step\<close>

lemma sync_files: "files (snd (sync cfg e ok st)) = files st"
  by (auto simp: sync_def upload_to_s3_def s3_except_def Let_def
      split: prod.splits sum.splits option.splits outcome.splits if_splits)

lemma sync_dirs: "dirs (snd (sync cfg e ok st)) = dirs st"
  by (auto simp: sync_def upload_to_s3_def s3_except_def Let_def
      split: prod.splits sum.splits option.splits outcome.splits if_splits)

lemma sync_not_ok:
  "sync cfg e False st =
     (Inr (if truthy (S3_BUCKET cfg) then None
           else Some (S3_error ''S3_BUCKET not configured; skipping upload'' None)), st)"
  by (simp add: sync_def)

lemma sync_no_bucket:
  "\<not> truthy (S3_BUCKET cfg) \<Longrightarrow>
   sync cfg e ok st = (Inr (Some (S3_error ''S3_BUCKET not configured; skipping upload'' None)), st)"
  by (simp add: sync_def)

lemma sync_caught:
  assumes "\<forall>x. client_io e = Raises x \<longrightarrow> is_boto x"
    and "\<forall>x. upload_io e = Raises x \<longrightarrow> is_boto x"
  shows "\<exists>r. fst (sync cfg e ok st) = Inr r"
  using assms
  by (auto simp: sync_def upload_to_s3_def s3_except_def Let_def
      split: prod.splits sum.splits option.splits outcome.splits if_splits)

subsection \<open>The handler\<close>

lemma reopened_absent: "frm ''reopened'' = None \<Longrightarrow> reopened (read_form frm) = ''0''"
  by (simp add: read_form_def or_else_def strip_def isspace_def)

lemma reopened_verbatim:
  "frm ''reopened'' = Some r \<Longrightarrow> r \<noteq> [] \<Longrightarrow> \<not> isspace (hd r) \<Longrightarrow> \<not> isspace (last r)
   \<Longrightarrow> reopened (read_form frm) = r"
  by (simp add: read_form_def or_else_def strip_clean)




lemma submit_invalid:
  "validate fp (read_form frm) = Inl r \<Longrightarrow> submit cfg fp e frm st = (r, st)"
  by (simp add: submit_def Let_def)


lemma submit_valid:
  assumes "validate fp (read_form frm) = Inr a"
    and "apply_multiplier cfg fp (reopened (read_form frm)) a = Inr (amt, m)"
    and "append_row_and_save cfg fp e (build_row e (read_form frm) amt) st = ((ok, err), st1)"
  shows "submit cfg fp e frm st =
     (case sync cfg e ok st1 of
        (Inl x, st2) \<Rightarrow> (internal_error x, st2)
      | (Inr s3, st2) \<Rightarrow>
          if \<not> ok then ((Json_save_failed ''Failed to save Excel'' err (EXCEL_PATH cfg), 500), st2)
          else ((Json_success amt (reopened (read_form frm)) m (path_exists st1 (EXCEL_PATH cfg))
                   (EXCEL_PATH cfg) s3, 200), st2))"
  using assms by (simp add: submit_def Let_def)

lemma submit_400:
  "snd (fst (submit cfg fp e frm st)) = 400 \<Longrightarrow> \<exists>r. validate fp (read_form frm) = Inl r"
  by (auto simp: submit_def Let_def internal_error_def
      split: sum.splits prod.splits if_splits)

lemma submit_200:
  assumes "submit cfg fp e frm st = ((b, 200), st')"
  shows "\<exists>a amt m err st1 s3.
           validate fp (read_form frm) = Inr a
         \<and> apply_multiplier cfg fp (reopened (read_form frm)) a = Inr (amt, m)
         \<and> append_row_and_save cfg fp e (build_row e (read_form frm) amt) st = ((True, err), st1)
         \<and> sync cfg e True st1 = (Inr s3, st')
         \<and> b = Json_success amt (reopened (read_form frm)) m (path_exists st1 (EXCEL_PATH cfg))
                 (EXCEL_PATH cfg) s3"
proof (cases "validate fp (read_form frm)")
  case (Inl r)
  with assms validate_Inl_status [OF Inl] show ?thesis
    by (auto simp: submit_invalid)
next
  case (Inr a)
  show ?thesis
  proof (cases "apply_multiplier cfg fp (reopened (read_form frm)) a")
    case (Inl x)
    with assms Inr show ?thesis by (simp add: submit_def Let_def internal_error_def)
  next
    case R: (Inr am)
    obtain amt m where am: "am = (amt, m)" by (cases am)
    obtain ok err st1 where ap: "append_row_and_save cfg fp e (build_row e (read_form frm) amt) st = ((ok, err), st1)"
      by (cases "append_row_and_save cfg fp e (build_row e (read_form frm) amt) st") auto
    from assms submit_valid [OF Inr R [unfolded am] ap]
    show ?thesis using Inr R am ap
      by (auto simp: internal_error_def split: prod.splits sum.splits if_splits)
  qed
qed

lemma submit_200_store:
  assumes "submit cfg fp e frm st = ((b, 200), st')"
  shows "\<exists>a amt m s3 rows.
           validate fp (read_form frm) = Inr a
         \<and> apply_multiplier cfg fp (reopened (read_form frm)) a = Inr (amt, m)
         \<and> b = Json_success amt (reopened (read_form frm)) m True (EXCEL_PATH cfg) s3
         \<and> files st' = (files st)(EXCEL_PATH cfg \<mapsto>
               Workbook (resaved fp rows @ [stored fp (build_row e (read_form frm) amt)]))
         \<and> (files st (EXCEL_PATH cfg) = Some (Workbook rows)
            \<or> files st (EXCEL_PATH cfg) = None \<and> rows = [headers])"
proof -
  from submit_200 [OF assms] obtain a amt m err st1 s3 where
    v: "validate fp (read_form frm) = Inr a"
    and am: "apply_multiplier cfg fp (reopened (read_form frm)) a = Inr (amt, m)"
    and ap: "append_row_and_save cfg fp e (build_row e (read_form frm) amt) st = ((True, err), st1)"
    and sy: "sync cfg e True st1 = (Inr s3, st')"
    and b: "b = Json_success amt (reopened (read_form frm)) m (path_exists st1 (EXCEL_PATH cfg)) (EXCEL_PATH cfg) s3"
    by blast
  from sy have "files st' = files st1" using sync_files [of cfg e True st1] by simp
  with append_ok(3,5) [OF ap] v am b show ?thesis by auto
qed


lemma submit_200_when_caught:
  assumes "validate fp (read_form frm) = Inr a"
    and "apply_multiplier cfg fp (reopened (read_form frm)) a = Inr (amt, m)"
    and "append_row_and_save cfg fp e (build_row e (read_form frm) amt) st = ((True, err), st1)"
    and "\<forall>x. client_io e = Raises x \<longrightarrow> is_boto x"
    and "\<forall>x. upload_io e = Raises x \<longrightarrow> is_boto x"
  shows "\<exists>s3. fst (submit cfg fp e frm st) =
           (Json_success amt (reopened (read_form frm)) m True (EXCEL_PATH cfg) s3, 200)"
proof -
  have "\<exists>r. fst (sync cfg e True st1) = Inr r"
    using assms(4,5) by (rule sync_caught)
  then obtain r st2 where "sync cfg e True st1 = (Inr r, st2)"
    by (cases "sync cfg e True st1") auto
  with submit_valid [OF assms(1-3)] append_ok(3) [OF assms(3)] show ?thesis by simp
qed

subsection \<open>A sequence of requests\<close>




subsection \<open>The download of the default store\<close>

lemma download_default_store:
  assumes "EXCEL_FILE cfg = ''submissions.xlsx''"
  shows "download_excel cfg e st =
     (if \<not> path_exists st (EXCEL_PATH cfg)
      then (Download_error ''File not found. Submit once to create it.'', 404)
      else (case files st (EXCEL_PATH cfg) of
              Some c \<Rightarrow> (Attachment ''submissions.xlsx'' c, 200)
            | None \<Rightarrow> (Download_error (exc_str (send_error e)), 500)))"
  using assms by (simp add: download_excel_def EXCEL_PATH_def Let_def)

subsection \<open>Evaluating concrete requests\<close>

lemmas eval_defs =
  submit_def read_form_def validate_def good_form_def default_cfg_def int_float_def
  quiet_env_def empty_disk_def strip_def isspace_def isdigit_def or_else_def join_if_def
  apply_multiplier_def build_row_def append_row_and_save_def ensure_dir_for_file_def
  ensure_excel_def EXCEL_PATH_def path_join_def dirname_def path_exists_def wb_save_def
  load_workbook_def ws_append_def sync_def truthy_def Let_def headers_def
  upload_to_s3_def s3_except_def basename_def internal_error_def
  check_cell_def written_def stored_def resaved_def

lemma good_fields:
  "read_form good_form =
     \<lparr>name = ''Ann Lee'', phone = ''555-0100'', email = ''ann@example.org'',
      zipcode = ''12345'', bank = ''First Bank'', amount_raw = ''25'', reopened = ''1''\<rparr>"
  by (simp add: eval_defs)

lemma good_validate: "validate int_float (read_form good_form) = Inr 25"
  by (simp add: eval_defs)





lemma no_digits_validate:
  "validate int_float (read_form (good_form(''phone'' \<mapsto> ''abc''))) = Inl (Json_error ''Phone looks invalid'', 400)"
  by (simp add: eval_defs)

lemma no_digits_first_failure:
  "spec_first_failure int_float (read_form (good_form(''phone'' \<mapsto> ''abc''))) = Some Phone"
  by (simp add: spec_first_failure_def spec_order_def remove_non_digits_def after_last_def eval_defs)

lemma good_first_failure: "spec_first_failure int_float (read_form good_form) = None"
  by (simp add: spec_first_failure_def spec_order_def remove_non_digits_def after_last_def good_fields)
     (simp add: isdigit_def int_float_def)

lemma good_multiplier:
  "apply_multiplier bucket_cfg int_float (reopened (read_form good_form)) 25 = Inr (2500, True)"
  by (simp add: good_fields apply_multiplier_def int_float_def bucket_cfg_def default_cfg_def)

lemma denied_append:
  "append_row_and_save bucket_cfg int_float save_denied_env
     (build_row save_denied_env (read_form good_form) 2500) empty_disk =
     ((False, Some ''PermissionError''),
      empty_disk\<lparr>files := [''/srv/app/submissions.xlsx'' \<mapsto> Workbook [headers]]\<rparr>)"
  by (simp add: bucket_cfg_def save_denied_env_def eval_defs)

lemma echo_submit:
  "r \<in> {''true'', ''2'', ''01''} \<Longrightarrow>
   submit default_cfg int_float quiet_env (good_form(''reopened'' \<mapsto> r)) empty_disk =
     ((Json_success 25 r False True ''/srv/app/submissions.xlsx''
         (Some (S3_error ''S3_BUCKET not configured; skipping upload'' None)), 200),
      empty_disk\<lparr>files := [''/srv/app/submissions.xlsx'' \<mapsto>
         Workbook [headers, build_row quiet_env (read_form (good_form(''reopened'' \<mapsto> r))) 25]]\<rparr>)"
  by (auto simp add: eval_defs)

lemma echo_validate:
  "validate int_float (read_form (good_form(''reopened'' \<mapsto> r))) = Inr 25"
  by (simp add: eval_defs)

lemma header_disk:
  "ensure_excel default_cfg int_float quiet_env empty_disk =
     ((True, None), empty_disk\<lparr>files := [''/srv/app/submissions.xlsx'' \<mapsto> Workbook [headers]]\<rparr>)"
  by (simp add: eval_defs)

lemma good_append:
  "append_row_and_save default_cfg int_float quiet_env (build_row quiet_env (read_form good_form) 2500) empty_disk =
     ((True, None), empty_disk\<lparr>files := [''/srv/app/submissions.xlsx'' \<mapsto>
         Workbook [headers, build_row quiet_env (read_form good_form) 2500]]\<rparr>)"
  by (simp add: eval_defs)

lemma custom_submit:
  "submit custom_cfg int_float quiet_env good_form empty_disk =
     ((Json_success 2500 ''1'' True True ''/srv/app/data.xlsx''
         (Some (S3_error ''S3_BUCKET not configured; skipping upload'' None)), 200),
      empty_disk\<lparr>files := [''/srv/app/data.xlsx'' \<mapsto>
         Workbook [headers, build_row quiet_env (read_form good_form) 2500]]\<rparr>)"
  by (simp add: custom_cfg_def eval_defs)





subsection \<open>Rows that were saved several times\<close>





subsection \<open>Further concrete requests\<close>



lemma padded_one_submit:
  "fst (submit default_cfg int_float quiet_env (good_form(''reopened'' \<mapsto> '' 1 '')) empty_disk) =
     (Json_success 2500 ''1'' True True ''/srv/app/submissions.xlsx''
        (Some (S3_error ''S3_BUCKET not configured; skipping upload'' None)), 200)"
  by (simp add: eval_defs)

lemma empty_reopened_submit:
  "fst (submit default_cfg int_float quiet_env (good_form(''reopened'' \<mapsto> [])) empty_disk) =
     (Json_success 25 ''0'' False True ''/srv/app/submissions.xlsx''
        (Some (S3_error ''S3_BUCKET not configured; skipping upload'' None)), 200)"
  by (simp add: eval_defs)

lemma blank_reopened_submit:
  "fst (submit default_cfg int_float quiet_env (good_form(''reopened'' \<mapsto> ''  '')) empty_disk) =
     (Json_success 25 [] False True ''/srv/app/submissions.xlsx''
        (Some (S3_error ''S3_BUCKET not configured; skipping upload'' None)), 200)"
  by (simp add: eval_defs)

section \<open>The claims\<close>




text \<open>
  C2: on every form the handler applies the six rules of the specification to the
  stripped fields, in the order name, phone, email, zipcode, bank, amount: the first
  rule that fails decides the response, which is status 400 with the message of that
  rule and no two rules share a message; when no rule fails the status is not 400.
\<close>

theorem validator_rules_in_order:
  "(spec_first_failure fp (read_form frm) = Some k \<longrightarrow>
      submit cfg fp e frm st = ((Json_error (error_message k), 400), st))
   \<and> (spec_first_failure fp (read_form frm) = None \<longrightarrow>
      snd (fst (submit cfg fp e frm st)) \<noteq> 400)
   \<and> inj error_message"
proof (intro conjI impI)
  assume "spec_first_failure fp (read_form frm) = Some k"
  then have "validate fp (read_form frm) = Inl (Json_error (error_message k), 400)"
    by (simp add: validate_first_failure)
  then show "submit cfg fp e frm st = ((Json_error (error_message k), 400), st)"
    by (rule submit_invalid)
next
  assume n: "spec_first_failure fp (read_form frm) = None"
  then have "spec_rule fp (read_form frm) Amount"
    by (auto simp: spec_first_failure_def spec_order_def split: if_splits)
  with n have "\<exists>a. validate fp (read_form frm) = Inr a"
    by (auto simp: validate_first_failure)
  then show "snd (fst (submit cfg fp e frm st)) \<noteq> 400"
    using submit_400 [of cfg fp e frm st] by auto
next
  show "inj error_message" by (rule inj_error_message)
qed

theorem validator_rules_in_order_witness:
  "spec_first_failure int_float (read_form (good_form(''phone'' \<mapsto> ''abc''))) = Some Phone
   \<and> submit default_cfg int_float quiet_env (good_form(''phone'' \<mapsto> ''abc'')) empty_disk =
       ((Json_error ''Phone looks invalid'', 400), empty_disk)
   \<and> spec_first_failure int_float (read_form good_form) = None
   \<and> snd (fst (submit default_cfg int_float quiet_env good_form empty_disk)) \<noteq> 400"
  using validator_rules_in_order [of int_float "good_form(''phone'' \<mapsto> ''abc'')" Phone default_cfg quiet_env empty_disk]
    validator_rules_in_order [of int_float good_form Name default_cfg quiet_env empty_disk]
    no_digits_first_failure good_first_failure
  by simp




text \<open>
  C4: with \<open>EXCEL_FILE = data.xlsx\<close> a submission is answered with status 200 and
  the store \<open>/srv/app/data.xlsx\<close> holds the header and its row; \<open>download_excel\<close>,
  which reads \<open>submissions.xlsx\<close> whatever the configuration (line 154), answers 404
  with \<open>File not found. Submit once to create it.\<close>
\<close>

theorem download_misses_configured_store:
  "submit custom_cfg int_float quiet_env good_form empty_disk =
     ((Json_success 2500 ''1'' True True ''/srv/app/data.xlsx''
         (Some (S3_error ''S3_BUCKET not configured; skipping upload'' None)), 200),
      empty_disk\<lparr>files := [''/srv/app/data.xlsx'' \<mapsto>
         Workbook [headers, build_row quiet_env (read_form good_form) 2500]]\<rparr>)
   \<and> EXCEL_PATH custom_cfg = ''/srv/app/data.xlsx''
   \<and> download_excel custom_cfg quiet_env
        (snd (submit custom_cfg int_float quiet_env good_form empty_disk)) =
       (Download_error ''File not found. Submit once to create it.'', 404)"
  by (simp add: custom_submit)
     (simp add: download_excel_def path_exists_def path_join_def EXCEL_PATH_def
       custom_cfg_def default_cfg_def empty_disk_def)

text \<open>
  C5: when \<open>append_row_and_save\<close> fails, the response is status 500 with the
  text \<open>Failed to save Excel\<close>, the trace of the exception that was raised and the
  store path; the state the handler leaves is the one left by the failed append, so
  \<open>s3.upload_file\<close> has not been called.
\<close>

theorem failed_append_is_500_without_upload:
  assumes "validate fp (read_form frm) = Inr a"
    and "apply_multiplier cfg fp (reopened (read_form frm)) a = Inr (amt, m)"
    and "append_row_and_save cfg fp e (build_row e (read_form frm) amt) st = ((False, err), st1)"
  shows "submit cfg fp e frm st =
           ((Json_save_failed ''Failed to save Excel'' err (EXCEL_PATH cfg), 500), st1)
       \<and> (\<exists>x. err = Some (format_exc x))
       \<and> s3_calls st1 = s3_calls st"
  using submit_valid [OF assms] append_failed [OF assms(3)]
  by (simp add: sync_not_ok)

theorem failed_append_is_500_without_upload_witness:
  "submit bucket_cfg int_float save_denied_env good_form empty_disk =
     ((Json_save_failed ''Failed to save Excel'' (Some ''PermissionError'')
         ''/srv/app/submissions.xlsx'', 500),
      empty_disk\<lparr>files := [''/srv/app/submissions.xlsx'' \<mapsto> Workbook [headers]]\<rparr>)
   \<and> s3_calls (empty_disk\<lparr>files := [''/srv/app/submissions.xlsx'' \<mapsto> Workbook [headers]]\<rparr>) = []"
  using failed_append_is_500_without_upload [OF good_validate good_multiplier denied_append]
  by (simp add: EXCEL_PATH_def path_join_def bucket_cfg_def default_cfg_def empty_disk_def)

text \<open>
  C6: a bucket is configured, the append succeeds and \<open>s3.upload_file\<close> raises an
  exception that is neither a \<open>BotoCoreError\<close> nor a \<open>ClientError\<close>. Line 72 does not
  catch it, line 146 does: the answer is status 500 with \<open>str(exc)\<close> and the trace,
  although the row is in the store.
\<close>

theorem uncaught_upload_error_is_500:
  "submit bucket_cfg int_float upload_error_env good_form empty_disk =
     ((Json_exception ''Failed to upload'' ''S3UploadFailedError'', 500),
      empty_disk\<lparr>files := [''/srv/app/submissions.xlsx'' \<mapsto>
           Workbook [headers, build_row upload_error_env (read_form good_form) 2500]],
         s3_calls := [(''/srv/app/submissions.xlsx'', ''forms-bucket'',
           ''submissions/20240501T120000Z_submissions.xlsx'')]\<rparr>)"
  by (simp add: bucket_cfg_def upload_error_env_def eval_defs)

text \<open>
  C7: \<open>ensure_excel\<close> is idempotent. Called twice in the same environment it leaves
  the state of a single call; it never changes a store file that exists; where the
  store path and its directory exist it returns \<open>(True, None)\<close> and the state it was
  given, which is the case after a call that succeeded and after an append that
  succeeded, whatever the environment of the second call.
\<close>

theorem ensure_excel_idempotent:
  "snd (ensure_excel cfg fp e (snd (ensure_excel cfg fp e st))) = snd (ensure_excel cfg fp e st)
   \<and> (files st (EXCEL_PATH cfg) = Some c \<longrightarrow> files (snd (ensure_excel cfg fp e st)) = files st)
   \<and> (path_exists st (EXCEL_PATH cfg)
        \<and> (dirname (EXCEL_PATH cfg) = [] \<or> path_exists st (dirname (EXCEL_PATH cfg))) \<longrightarrow>
        ensure_excel cfg fp e st = ((True, None), st))
   \<and> (ensure_excel cfg fp e st = ((True, err), st') \<longrightarrow>
        ensure_excel cfg fp e' st' = ((True, None), st'))
   \<and> (append_row_and_save cfg fp e row st = ((True, err), st') \<longrightarrow>
        ensure_excel cfg fp e' st' = ((True, None), st'))"
proof (intro conjI impI)
  show "snd (ensure_excel cfg fp e (snd (ensure_excel cfg fp e st))) = snd (ensure_excel cfg fp e st)"
    by (rule ensure_excel_twice)
next
  assume "files st (EXCEL_PATH cfg) = Some c"
  then show "files (snd (ensure_excel cfg fp e st)) = files st" by (rule ensure_excel_present_files)
next
  assume "path_exists st (EXCEL_PATH cfg)
        \<and> (dirname (EXCEL_PATH cfg) = [] \<or> path_exists st (dirname (EXCEL_PATH cfg)))"
  then show "ensure_excel cfg fp e st = ((True, None), st)" by (simp add: ensure_excel_present)
next
  assume a: "ensure_excel cfg fp e st = ((True, err), st')"
  show "ensure_excel cfg fp e' st' = ((True, None), st')"
    using ensure_excel_ok(2,3) [OF a] by (rule ensure_excel_present)
next
  assume a: "append_row_and_save cfg fp e row st = ((True, err), st')"
  show "ensure_excel cfg fp e' st' = ((True, None), st')"
    using append_ok(3,4) [OF a] by (rule ensure_excel_present)
qed

theorem ensure_excel_idempotent_witness:
  "ensure_excel default_cfg int_float save_denied_env
      (empty_disk\<lparr>files := [''/srv/app/submissions.xlsx'' \<mapsto> Workbook [headers]]\<rparr>) =
     ((True, None), empty_disk\<lparr>files := [''/srv/app/submissions.xlsx'' \<mapsto> Workbook [headers]]\<rparr>)
   \<and> ensure_excel default_cfg int_float save_denied_env
      (empty_disk\<lparr>files := [''/srv/app/submissions.xlsx'' \<mapsto>
         Workbook [headers, build_row quiet_env (read_form good_form) 2500]]\<rparr>) =
     ((True, None), empty_disk\<lparr>files := [''/srv/app/submissions.xlsx'' \<mapsto>
         Workbook [headers, build_row quiet_env (read_form good_form) 2500]]\<rparr>)
   \<and> files (snd (ensure_excel default_cfg int_float quiet_env
         (empty_disk\<lparr>files := [''/srv/app/submissions.xlsx'' \<mapsto> Workbook [headers]]\<rparr>))) =
       [''/srv/app/submissions.xlsx'' \<mapsto> Workbook [headers]]
   \<and> path_exists (empty_disk\<lparr>files := [''/srv/app/submissions.xlsx'' \<mapsto> Workbook [headers]]\<rparr>)
        (EXCEL_PATH default_cfg)"
  using
    ensure_excel_idempotent [where cfg = default_cfg and fp = int_float and e = quiet_env and st = empty_disk
      and err = None and e' = save_denied_env
      and st' = "empty_disk\<lparr>files := [''/srv/app/submissions.xlsx'' \<mapsto> Workbook [headers]]\<rparr>"]
    ensure_excel_idempotent [where cfg = default_cfg and fp = int_float and e = quiet_env and st = empty_disk
      and err = None and e' = save_denied_env
      and row = "build_row quiet_env (read_form good_form) 2500"
      and st' = "empty_disk\<lparr>files := [''/srv/app/submissions.xlsx'' \<mapsto>
         Workbook [headers, build_row quiet_env (read_form good_form) 2500]]\<rparr>"]
    ensure_excel_idempotent [where cfg = default_cfg and fp = int_float and e = quiet_env
      and st = "empty_disk\<lparr>files := [''/srv/app/submissions.xlsx'' \<mapsto> Workbook [headers]]\<rparr>"
      and c = "Workbook [headers]"]
    header_disk good_append
  by (simp add: EXCEL_PATH_def path_join_def dirname_def default_cfg_def empty_disk_def path_exists_def)

text \<open>
  C8: a submission that fails validation is answered with status 400 and the message
  of the rule that failed, and the handler returns the state it was given: nothing is
  appended to the store and \<open>s3.upload_file\<close> is not called.
\<close>

theorem invalid_submission_rejected:
  assumes "validate fp (read_form frm) = Inl r"
  shows "submit cfg fp e frm st = (r, st) \<and> snd r = 400
       \<and> (\<exists>k. fst r = Json_error (error_message k) \<and> \<not> spec_rule fp (read_form frm) k)"
proof -
  from assms obtain k where k: "spec_first_failure fp (read_form frm) = Some k \<or> (k = Amount \<and> float_of fp (amount_raw (read_form frm)) = None)"
    and r: "r = (Json_error (error_message k), 400)"
    by (auto simp: validate_first_failure split: option.splits)
  have "\<not> spec_rule fp (read_form frm) k"
    using k by (auto simp: spec_first_failure_def spec_order_def split: if_splits)
  with r assms show ?thesis by (auto simp: submit_invalid)
qed

theorem invalid_submission_rejected_witness:
  "submit default_cfg int_float quiet_env (good_form(''phone'' \<mapsto> ''abc'')) empty_disk =
     ((Json_error ''Phone looks invalid'', 400), empty_disk)"
  using invalid_submission_rejected [OF no_digits_validate, of default_cfg quiet_env empty_disk]
  by simp

text \<open>
  C9: the handler's reopened value is the form field after \<open>or "0"\<close> and \<open>strip\<close>
  (line 101): \<open>"0"\<close> when the field is absent or empty, the stripped field otherwise.
  For a submission that passes validation and is answered with status 200, the response
  echoes that value, and when it is not \<open>"1"\<close> the amount is passed through and
  \<open>multiplied\<close> is false. A field that is not empty and has no whitespace at either
  end, as \<open>true\<close>, \<open>2\<close> and \<open>01\<close>, is that value unchanged.
\<close>

theorem reopened_other_than_1:
  "(frm ''reopened'' = None \<or> frm ''reopened'' = Some [] \<longrightarrow>
        reopened (read_form frm) = ''0'')
   \<and> (frm ''reopened'' = Some r \<and> r \<noteq> [] \<longrightarrow> reopened (read_form frm) = strip r)
   \<and> (validate fp (read_form frm) = Inr a \<and> submit cfg fp e frm st = ((b, 200), st') \<longrightarrow>
        (\<exists>amt m s3. b = Json_success amt (reopened (read_form frm)) m True (EXCEL_PATH cfg) s3)
        \<and> reopened_received b = reopened (read_form frm)
        \<and> (reopened (read_form frm) \<noteq> ''1'' \<longrightarrow> amount_sent b = a \<and> \<not> multiplied b))
   \<and> (frm ''reopened'' = Some r \<and> r \<noteq> [] \<and> \<not> isspace (hd r) \<and> \<not> isspace (last r) \<longrightarrow>
        reopened (read_form frm) = r)"
proof (intro conjI impI)
  assume "frm ''reopened'' = None \<or> frm ''reopened'' = Some []"
  then show "reopened (read_form frm) = ''0''"
    by (auto simp: read_form_def or_else_def strip_def isspace_def)
next
  assume "frm ''reopened'' = Some r \<and> r \<noteq> []"
  then show "reopened (read_form frm) = strip r" by (simp add: read_form_def or_else_def)
next
  assume h: "validate fp (read_form frm) = Inr a \<and> submit cfg fp e frm st = ((b, 200), st')"
  from submit_200_store [of cfg fp e frm st b st'] h obtain amt m s3 where
    am: "apply_multiplier cfg fp (reopened (read_form frm)) a = Inr (amt, m)"
    and b: "b = Json_success amt (reopened (read_form frm)) m True (EXCEL_PATH cfg) s3"
    by auto
  from b show "\<exists>amt m s3. b = Json_success amt (reopened (read_form frm)) m True (EXCEL_PATH cfg) s3"
    by blast
  from b show "reopened_received b = reopened (read_form frm)" by simp
  assume "reopened (read_form frm) \<noteq> ''1''"
  with am b show "amount_sent b = a" and "\<not> multiplied b"
    by (auto simp: apply_multiplier_def)
next
  assume "frm ''reopened'' = Some r \<and> r \<noteq> [] \<and> \<not> isspace (hd r) \<and> \<not> isspace (last r)"
  then show "reopened (read_form frm) = r" by (simp add: reopened_verbatim)
qed

theorem reopened_other_than_1_witness:
  "reopened (read_form (good_form(''reopened'' := None))) = ''0''
   \<and> reopened (read_form (good_form(''reopened'' \<mapsto> '' 2 ''))) = strip '' 2 ''
   \<and> fst (submit default_cfg int_float quiet_env (good_form(''reopened'' \<mapsto> ''true'')) empty_disk) =
       (Json_success 25 ''true'' False True ''/srv/app/submissions.xlsx''
          (Some (S3_error ''S3_BUCKET not configured; skipping upload'' None)), 200)
   \<and> reopened (read_form (good_form(''reopened'' \<mapsto> ''01''))) = ''01''"
proof -
  let ?b = "Json_success 25 ''true'' False True ''/srv/app/submissions.xlsx''
              (Some (S3_error ''S3_BUCKET not configured; skipping upload'' None)) :: int body"
  let ?st = "empty_disk\<lparr>files := [''/srv/app/submissions.xlsx'' \<mapsto>
         Workbook [headers, build_row quiet_env (read_form (good_form(''reopened'' \<mapsto> ''true''))) 25]]\<rparr>
         :: int state"
  have absent: "(good_form(''reopened'' := None)) ''reopened'' = None
                \<or> (good_form(''reopened'' := None)) ''reopened'' = Some []" by simp
  have padded: "(good_form(''reopened'' \<mapsto> '' 2 '')) ''reopened'' = Some '' 2 '' \<and> '' 2 '' \<noteq> []"
    by simp
  have run: "submit default_cfg int_float quiet_env (good_form(''reopened'' \<mapsto> ''true'')) empty_disk
             = ((?b, 200), ?st)"
    using echo_submit [of "''true''"] by simp
  have clean: "(good_form(''reopened'' \<mapsto> ''01'')) ''reopened'' = Some ''01'' \<and> ''01'' \<noteq> []
               \<and> \<not> isspace (hd ''01'') \<and> \<not> isspace (last ''01'')"
    by (simp add: isspace_def)
  have "reopened (read_form (good_form(''reopened'' := None))) = ''0''"
    using reopened_other_than_1 [of "good_form(''reopened'' := None)" "''01''" int_float 25
        default_cfg quiet_env empty_disk ?b ?st] absent
    by blast
  moreover have "reopened (read_form (good_form(''reopened'' \<mapsto> '' 2 ''))) = strip '' 2 ''"
    using reopened_other_than_1 [of "good_form(''reopened'' \<mapsto> '' 2 '')" "'' 2 ''" int_float 25
        default_cfg quiet_env empty_disk ?b ?st] padded
    by blast
  moreover have "amount_sent ?b = 25 \<and> \<not> multiplied ?b"
    using reopened_other_than_1 [of "good_form(''reopened'' \<mapsto> ''true'')" "''true''" int_float 25
        default_cfg quiet_env empty_disk ?b ?st] echo_validate [of "''true''"] run
    by simp
  moreover have "reopened (read_form (good_form(''reopened'' \<mapsto> ''01''))) = ''01''"
    using reopened_other_than_1 [of "good_form(''reopened'' \<mapsto> ''01'')" "''01''" int_float 25
        default_cfg quiet_env empty_disk ?b ?st] clean
    by blast
  ultimately show ?thesis using run by simp
qed

text \<open>
  The received field \<open>" 1 "\<close> is not the string \<open>"1"\<close>, yet the amount is multiplied
  and the response echoes \<open>"1"\<close>; an empty field is echoed as \<open>"0"\<close> and a field of
  two spaces as the empty string.
\<close>

theorem padded_reopened_is_multiplied:
  "'' 1 '' \<noteq> ''1''
   \<and> fst (submit default_cfg int_float quiet_env (good_form(''reopened'' \<mapsto> '' 1 '')) empty_disk) =
       (Json_success 2500 ''1'' True True ''/srv/app/submissions.xlsx''
          (Some (S3_error ''S3_BUCKET not configured; skipping upload'' None)), 200)
   \<and> fst (submit default_cfg int_float quiet_env (good_form(''reopened'' \<mapsto> [])) empty_disk) =
       (Json_success 25 ''0'' False True ''/srv/app/submissions.xlsx''
          (Some (S3_error ''S3_BUCKET not configured; skipping upload'' None)), 200)
   \<and> fst (submit default_cfg int_float quiet_env (good_form(''reopened'' \<mapsto> ''  '')) empty_disk) =
       (Json_success 25 [] False True ''/srv/app/submissions.xlsx''
          (Some (S3_error ''S3_BUCKET not configured; skipping upload'' None)), 200)"
  by (simp add: padded_one_submit empty_reopened_submit blank_reopened_submit)



end
